theory Spec2Isabelle
  imports Complex_Main "HOL-Library.AList"
begin

section \<open>Python values and errors\<close>

text \<open>
  Exceptions of the Python source are values of \<open>error\<close>; a function that may raise
  returns \<open>error + 'a\<close> with \<open>Inl\<close> for the exception. The string carried by an error
  is the message (or the missing key or attribute) of the source.
\<close>

datatype error =
    ValueError string
  | TypeError string
  | IndexError
  | KeyError string
  | AttributeError string
  | RuntimeError

text \<open>A loop that stops at the first exception: the body is run on each element in order.\<close>

fun mapM_err :: "('a \<Rightarrow> error + 'b) \<Rightarrow> 'a list \<Rightarrow> error + 'b list" where
  "mapM_err f [] = Inr []"
| "mapM_err f (x # xs) =
     (case f x of
        Inl e \<Rightarrow> Inl e
      | Inr y \<Rightarrow> (case mapM_err f xs of Inl e \<Rightarrow> Inl e | Inr ys \<Rightarrow> Inr (y # ys)))"

text \<open>Python list indexing \<open>xs[i]\<close>: a negative index counts from the end.\<close>

definition py_getitem :: "'a list \<Rightarrow> int \<Rightarrow> error + 'a" where
  "py_getitem xs i =
     (let n = int (length xs); j = (if i < 0 then i + n else i)
      in if 0 \<le> j \<and> j < n then Inr (xs ! nat j) else Inl IndexError)"

text \<open>Python slicing \<open>xs[a:b]\<close> with integer bounds: negative bounds count from the
  end, and bounds are clamped to the sequence.\<close>

definition py_slice :: "'a list \<Rightarrow> int \<Rightarrow> int \<Rightarrow> 'a list" where
  "py_slice xs a b =
     (let n = int (length xs);
          lo = (if a < 0 then max (a + n) 0 else min a n);
          hi = (if b < 0 then max (b + n) 0 else min b n)
      in take (nat (hi - lo)) (drop (nat lo) xs))"

section \<open>model.py: input building and entity reconstruction\<close>

type_synonym device = string

text \<open>
  A value of the model-input and raw-batch dictionaries: \<open>None\<close>, a tensor (of which
  only its device and an opaque payload matter here), or any other object.
\<close>

datatype ('t, 'o) pyval = NoneVal | TensorVal device 't | OtherVal 'o

type_synonym ('t, 'o) pydict = "(string \<times> ('t, 'o) pyval) list"

text \<open>
  The raw batch is the dictionary returned by the processor's \<open>collate_raw_batch\<close>
  (field \<open>entries\<close>) to which \<open>prepare_model_inputs\<close> attaches the two offset tables.
\<close>

record ('t, 'o) raw_batch =
  entries :: "('t, 'o) pydict"
  all_start_token_idx_to_text_idx :: "int list list"
  all_end_token_idx_to_text_idx :: "int list list"

text \<open>\<open>GLiNER.__init__\<close>, lines 55-58: the flag \<open>onnx_model\<close> from
  \<open>isinstance(self.model, BaseORTModel)\<close>.\<close>

definition init_onnx_model :: "bool \<Rightarrow> bool" where
  "init_onnx_model is_ort_model = (if is_ort_model then True else True)"

text \<open>
  The \<open>model_input.update({...})\<close> of \<open>DataCollator.__call__\<close> (lines 18-20) and of
  \<open>prepare_model_inputs\<close> (lines 103-105). The dictionary literal is built first
  (\<open>raw_batch['seq_length']\<close> raises KeyError when missing), then each of its three keys
  is assigned.
\<close>

definition merge_batch_keys ::
  "('t, 'o) pydict \<Rightarrow> ('t, 'o) pydict \<Rightarrow> error + ('t, 'o) pydict" where
  "merge_batch_keys model_input raw =
     (let span_idx = (case map_of raw ''span_idx'' of Some v \<Rightarrow> v | None \<Rightarrow> NoneVal);
          span_mask = (case map_of raw ''span_mask'' of Some v \<Rightarrow> v | None \<Rightarrow> NoneVal)
      in case map_of raw ''seq_length'' of
           None \<Rightarrow> Inl (KeyError ''seq_length'')
         | Some text_lengths \<Rightarrow>
             Inr (AList.update ''text_lengths'' text_lengths
                   (AList.update ''span_mask'' span_mask
                     (AList.update ''span_idx'' span_idx model_input))))"

text \<open>\<open>DataCollator.__call__\<close>; the chosen processor's \<open>collate_raw_batch\<close> and
  \<open>collate_fn\<close> are parameters.\<close>

definition DataCollator_call ::
  "('x \<Rightarrow> ('t, 'o) pydict) \<Rightarrow> (('t, 'o) pydict \<Rightarrow> ('t, 'o) pydict) \<Rightarrow> 'x \<Rightarrow>
   error + ('t, 'o) pydict" where
  "DataCollator_call collate_raw_batch collate_fn input_x =
     (let raw_batch = collate_raw_batch input_x;
          model_input = collate_fn raw_batch
      in merge_batch_keys model_input raw_batch)"

text \<open>Lines 107-111 of \<open>prepare_model_inputs\<close>: the move to the encoder's device.\<close>

definition to_device :: "device \<Rightarrow> ('t, 'o) pyval \<Rightarrow> ('t, 'o) pyval" where
  "to_device dev v = (case v of TensorVal d t \<Rightarrow> TensorVal dev t | NoneVal \<Rightarrow> NoneVal
                      | OtherVal x \<Rightarrow> OtherVal x)"

definition move_inputs :: "bool \<Rightarrow> device \<Rightarrow> ('t, 'o) pydict \<Rightarrow> ('t, 'o) pydict" where
  "move_inputs onnx_model dev model_input =
     (if \<not> onnx_model then map (\<lambda>(key, v). (key, to_device dev v)) model_input
      else model_input)"

text \<open>
  \<open>prepare_model_inputs\<close>. Parameters: the flag set by the constructor, the device of
  the model's parameters, the words splitter and the processor's two functions.
\<close>

definition prepare_model_inputs ::
  "bool \<Rightarrow> device \<Rightarrow> (string \<Rightarrow> (string \<times> int \<times> int) list) \<Rightarrow>
   ((string list) list \<Rightarrow> 'l \<Rightarrow> ('t, 'o) pydict) \<Rightarrow>
   (('t, 'o) pydict \<Rightarrow> ('t, 'o) pydict) \<Rightarrow> string list \<Rightarrow> 'l \<Rightarrow>
   error + (('t, 'o) pydict \<times> ('t, 'o) raw_batch)" where
  "prepare_model_inputs onnx_model dev words_splitter collate_raw_batch collate_fn texts labels =
     (let all_tokens = map (\<lambda>text. map (\<lambda>(token, s, e). token) (words_splitter text)) texts;
          all_start = map (\<lambda>text. map (\<lambda>(token, s, e). s) (words_splitter text)) texts;
          all_end = map (\<lambda>text. map (\<lambda>(token, s, e). e) (words_splitter text)) texts;
          raw = collate_raw_batch all_tokens labels;
          raw_batch = \<lparr>entries = raw, all_start_token_idx_to_text_idx = all_start,
                       all_end_token_idx_to_text_idx = all_end\<rparr>
      in case merge_batch_keys (collate_fn raw) raw of
           Inl e \<Rightarrow> Inl e
         | Inr model_input \<Rightarrow> Inr (move_inputs onnx_model dev model_input, raw_batch))"

text \<open>The entity emitted for one hypothesis.\<close>

record ('lbl, 'sc) entity =
  ent_start :: int
  ent_end :: int
  ent_text :: string
  ent_label :: 'lbl
  ent_score :: 'sc

type_synonym ('lbl, 'sc) hypothesis = "int \<times> int \<times> 'lbl \<times> 'sc"

text \<open>The inner loop of \<open>batch_predict_entities\<close> (lines 144-153) for text number \<open>i\<close>.\<close>

fun text_entities ::
  "string list \<Rightarrow> nat \<Rightarrow> int list \<Rightarrow> int list \<Rightarrow> ('lbl, 'sc) hypothesis list \<Rightarrow>
   error + ('lbl, 'sc) entity list" where
  "text_entities texts i starts ends [] = Inr []"
| "text_entities texts i starts ends ((start_token_idx, end_token_idx, ent_type, score) # rest) =
     (case py_getitem starts start_token_idx of
        Inl e \<Rightarrow> Inl e
      | Inr start_text_idx \<Rightarrow>
     (case py_getitem ends end_token_idx of
        Inl e \<Rightarrow> Inl e
      | Inr end_text_idx \<Rightarrow>
     (case py_getitem texts (int i) of
        Inl e \<Rightarrow> Inl e
      | Inr text \<Rightarrow>
     (case text_entities texts i starts ends rest of
        Inl e \<Rightarrow> Inl e
      | Inr entities \<Rightarrow>
          Inr (\<lparr>ent_start = start_text_idx, ent_end = end_text_idx,
                ent_text = py_slice text start_text_idx end_text_idx,
                ent_label = ent_type, ent_score = score\<rparr> # entities)))))"

text \<open>The outer loop (lines 139-156), \<open>enumerate(outputs)\<close> counting from \<open>i\<close>.\<close>

fun all_entities_from ::
  "string list \<Rightarrow> ('t, 'o) raw_batch \<Rightarrow> nat \<Rightarrow> ('lbl, 'sc) hypothesis list list \<Rightarrow>
   error + ('lbl, 'sc) entity list list" where
  "all_entities_from texts raw_batch i [] = Inr []"
| "all_entities_from texts raw_batch i (output # outputs) =
     (case py_getitem (all_start_token_idx_to_text_idx raw_batch) (int i) of
        Inl e \<Rightarrow> Inl e
      | Inr start_token_idx_to_text_idx \<Rightarrow>
     (case py_getitem (all_end_token_idx_to_text_idx raw_batch) (int i) of
        Inl e \<Rightarrow> Inl e
      | Inr end_token_idx_to_text_idx \<Rightarrow>
     (case text_entities texts i start_token_idx_to_text_idx end_token_idx_to_text_idx output of
        Inl e \<Rightarrow> Inl e
      | Inr entities \<Rightarrow>
     (case all_entities_from texts raw_batch (Suc i) outputs of
        Inl e \<Rightarrow> Inl e
      | Inr all_entities \<Rightarrow> Inr (entities # all_entities)))))"

text \<open>
  \<open>batch_predict_entities\<close>. The encoder's forward pass followed by the decoder is the
  parameter \<open>predict\<close>: from the model input and the raw batch it gives one list of
  hypotheses per text.
\<close>

definition batch_predict_entities ::
  "bool \<Rightarrow> device \<Rightarrow> (string \<Rightarrow> (string \<times> int \<times> int) list) \<Rightarrow>
   ((string list) list \<Rightarrow> 'l \<Rightarrow> ('t, 'o) pydict) \<Rightarrow>
   (('t, 'o) pydict \<Rightarrow> ('t, 'o) pydict) \<Rightarrow>
   (('t, 'o) pydict \<Rightarrow> ('t, 'o) raw_batch \<Rightarrow> ('lbl, 'sc) hypothesis list list) \<Rightarrow>
   string list \<Rightarrow> 'l \<Rightarrow> error + ('lbl, 'sc) entity list list" where
  "batch_predict_entities onnx_model dev words_splitter collate_raw_batch collate_fn predict
     texts labels =
     (case prepare_model_inputs onnx_model dev words_splitter collate_raw_batch collate_fn
             texts labels of
        Inl e \<Rightarrow> Inl e
      | Inr (model_input, raw_batch) \<Rightarrow>
          all_entities_from texts raw_batch 0 (predict model_input raw_batch))"

section \<open>collator.py: the padding engine\<close>

text \<open>
  A tensor is its shape and its elements in row-major order. A tensor of the source
  always has as many elements as its shape says (\<open>wf_tensor\<close>).
\<close>

record 'a tensor =
  shape :: "nat list"
  elems :: "'a list"

definition wf_tensor :: "'a tensor \<Rightarrow> bool" where
  "wf_tensor t = (length (elems t) = prod_list (shape t))"

definition dim :: "'a tensor \<Rightarrow> nat" where
  "dim t = length (shape t)"

text \<open>
  The value a feature dictionary holds for a key: a tensor, a Python list of numbers,
  a number, or an object of another built-in type (\<open>None\<close>, a string).
\<close>

datatype 'a feature = FTensor "'a tensor" | FList "'a list" | FNumber 'a | FOther

type_synonym 'a features = "(string \<times> 'a feature) list"

record config =
  span_mode :: string

text \<open>\<open>Tensor.squeeze(0)\<close>: the leading dimension is removed when its size is 1;
  a tensor of rank 0 is returned as it is.\<close>

definition squeeze0 :: "'a tensor \<Rightarrow> 'a tensor" where
  "squeeze0 t =
     (case shape t of
        [] \<Rightarrow> t
      | d # ds \<Rightarrow> (if d = 1 then t\<lparr>shape := ds\<rparr> else t))"

text \<open>\<open>item[key].squeeze(0)\<close> of line 42: a list, a number and \<open>None\<close> have no
  attribute \<open>squeeze\<close>.\<close>

definition squeeze_item :: "'a feature \<Rightarrow> error + 'a tensor" where
  "squeeze_item v =
     (case v of
        FTensor t \<Rightarrow> Inr (squeeze0 t)
      | FList xs \<Rightarrow> Inl (AttributeError ''squeeze'')
      | FNumber x \<Rightarrow> Inl (AttributeError ''squeeze'')
      | FOther \<Rightarrow> Inl (AttributeError ''squeeze''))"

text \<open>Line 42: \<open>key_data = [item[key].squeeze(0) for item in batch]\<close>.\<close>

definition collect_key_data :: "'a features list \<Rightarrow> string \<Rightarrow> error + 'a tensor list" where
  "collect_key_data batch key =
     mapM_err (\<lambda>item. case map_of item key of
                         None \<Rightarrow> Inl (KeyError key)
                       | Some v \<Rightarrow> squeeze_item v) batch"

text \<open>\<open>max(... for tensor in key_data)\<close> over a non-empty list of sizes.\<close>

definition max_of :: "nat list \<Rightarrow> nat" where
  "max_of ns = Max (set ns)"

text \<open>
  \<open>torch.nn.utils.rnn.pad_sequence(key_data, batch_first=True)\<close> as it is called
  here, on a list whose first tensor has rank 1: every sequence is copied into a row of
  zeros of the greatest length. A sequence of another rank cannot be copied into such a
  row (a tensor of rank 0 has no \<open>size(0)\<close>): torch raises, which is \<open>RuntimeError\<close>
  here.
\<close>

definition pad_sequence :: "('a::zero) tensor list \<Rightarrow> error + 'a tensor" where
  "pad_sequence sequences =
     (if sequences = [] then Inl RuntimeError
      else if list_all (\<lambda>t. dim t = 1) sequences then
        (let max_len = max_of (map (\<lambda>t. shape t ! 0) sequences)
         in Inr \<lparr>shape = [length sequences, max_len],
                 elems = concat (map (\<lambda>t. elems t @ replicate (max_len - shape t ! 0) 0)
                                    sequences)\<rparr>)
      else Inl RuntimeError)"

text \<open>The \<open>r\<close> consecutive blocks of \<open>c\<close> elements of a flat list.\<close>

definition rows_of :: "nat \<Rightarrow> nat \<Rightarrow> 'a list \<Rightarrow> 'a list list" where
  "rows_of r c xs = map (\<lambda>i. take c (drop (i * c) xs)) [0..<r]"

text \<open>An \<open>r\<close> by \<open>c\<close> matrix with \<open>col_padding\<close> zeros added at the end of each row
  and \<open>row_padding\<close> rows of zeros added at the end.\<close>

definition pad_matrix :: "nat \<Rightarrow> nat \<Rightarrow> nat \<Rightarrow> nat \<Rightarrow> ('a::zero) list \<Rightarrow> 'a list" where
  "pad_matrix r c col_padding row_padding xs =
     concat (map (\<lambda>row. row @ replicate col_padding 0) (rows_of r c xs))
       @ replicate (row_padding * (c + col_padding)) 0"

text \<open>
  \<open>F.pad(tensor, (0, col_padding, 0, row_padding), mode='constant', value=0)\<close>: the
  last dimension grows by \<open>col_padding\<close> and the one before it by \<open>row_padding\<close>,
  whatever the rank; a tensor of rank below 2 cannot take four padding sizes.
\<close>

definition F_pad :: "('a::zero) tensor \<Rightarrow> nat \<Rightarrow> nat \<Rightarrow> error + 'a tensor" where
  "F_pad t col_padding row_padding =
     (if dim t < 2 then Inl RuntimeError
      else
        (let pre = take (dim t - 2) (shape t);
             r = shape t ! (dim t - 2);
             c = shape t ! (dim t - 1)
         in Inr \<lparr>shape = pre @ [r + row_padding, c + col_padding],
                 elems = concat (map (pad_matrix r c col_padding row_padding)
                                    (rows_of (prod_list pre) (r * c) (elems t)))\<rparr>))"

text \<open>\<open>torch.stack(tensors)\<close>: a new leading axis; all shapes must agree.\<close>

definition stack :: "'a tensor list \<Rightarrow> error + 'a tensor" where
  "stack tensors =
     (case tensors of
        [] \<Rightarrow> Inl RuntimeError
      | t # ts \<Rightarrow>
          (if list_all (\<lambda>u. shape u = shape t) ts
           then Inr \<lparr>shape = length tensors # shape t, elems = concat (map elems tensors)\<rparr>
           else Inl RuntimeError))"

text \<open>
  \<open>torch.cat(tensors, dim=1)\<close>: the tensors must have the same rank, at least 2, and
  the same sizes on every axis but axis 1, whose sizes add up.
\<close>

definition cat_dim1 :: "'a tensor list \<Rightarrow> error + 'a tensor" where
  "cat_dim1 tensors =
     (case tensors of
        [] \<Rightarrow> Inl RuntimeError
      | t # ts \<Rightarrow>
          (if dim t < 2 then Inl IndexError
           else if list_all (\<lambda>u. dim u = dim t \<and> shape u ! 0 = shape t ! 0 \<and>
                                  drop 2 (shape u) = drop 2 (shape t)) ts
           then Inr \<lparr>shape = shape t ! 0 # sum_list (map (\<lambda>u. shape u ! 1) tensors)
                              # drop 2 (shape t),
                     elems = concat (map (\<lambda>j. concat (map (\<lambda>u.
                                 take (prod_list (tl (shape u)))
                                   (drop (j * prod_list (tl (shape u))) (elems u))) tensors))
                               [0..<shape t ! 0])\<rparr>
           else Inl RuntimeError))"

text \<open>
  \<open>pad_2d_tensor\<close>. \<open>tensor.shape[0]\<close> and \<open>tensor.shape[1]\<close> raise IndexError on a
  tensor of rank below 2, and \<open>rows, cols = tensor.shape\<close> raises ValueError on a
  tensor of rank above 2.
\<close>

definition pad_2d_tensor :: "('a::zero) tensor list \<Rightarrow> error + 'a tensor" where
  "pad_2d_tensor key_data =
     (if key_data = [] then Inl (ValueError ''The input list key_data should not be empty.'')
      else if list_ex (\<lambda>t. dim t < 1) key_data then Inl IndexError
      else if list_ex (\<lambda>t. dim t < 2) key_data then Inl IndexError
      else
        (let max_rows = max_of (map (\<lambda>t. shape t ! 0) key_data);
             max_cols = max_of (map (\<lambda>t. shape t ! 1) key_data)
         in case mapM_err (\<lambda>t.
                   if dim t = 2
                   then F_pad t (max_cols - shape t ! 1) (max_rows - shape t ! 0)
                   else Inl (ValueError ''too many values to unpack'')) key_data of
              Inl e \<Rightarrow> Inl e
            | Inr tensors \<Rightarrow> stack tensors))"

text \<open>\<open>pad_token_labels\<close>. \<open>tensor.shape[2]\<close> and \<open>tensor.shape[3]\<close> raise
  IndexError on a tensor of rank below 4.\<close>

definition pad_token_labels :: "('a::zero) tensor list \<Rightarrow> error + 'a tensor" where
  "pad_token_labels key_data =
     (if key_data = [] then Inl (ValueError ''The input list key_data should not be empty.'')
      else if list_ex (\<lambda>t. dim t < 3) key_data then Inl IndexError
      else if list_ex (\<lambda>t. dim t < 4) key_data then Inl IndexError
      else
        (let max_seq_len = max_of (map (\<lambda>t. shape t ! 2) key_data);
             max_num_classes = max_of (map (\<lambda>t. shape t ! 3) key_data)
         in case mapM_err (\<lambda>t.
                   F_pad t (max_num_classes - shape t ! 3) (max_seq_len - shape t ! 2))
                 key_data of
              Inl e \<Rightarrow> Inl e
            | Inr padded_tensors \<Rightarrow> cat_dim1 padded_tensors))"

text \<open>
  Lines 44-65, the dispatch on \<open>key_data[0]\<close>. Every element of \<open>key_data\<close> is a
  tensor, since line 42 has raised on anything else; the branches of the source for
  lists (line 54) and numbers (line 61) and its last \<open>else\<close> are therefore never
  entered. \<open>self.config\<close> is \<open>None\<close> unless given to the constructor.
\<close>

definition pad_key_data :: "config option \<Rightarrow> string \<Rightarrow> ('a::zero) tensor list \<Rightarrow> error + 'a tensor" where
  "pad_key_data cfg key key_data =
     (case key_data of
        [] \<Rightarrow> Inl IndexError
      | t0 # rest \<Rightarrow>
          (if dim t0 = 1 then pad_sequence key_data
           else if dim t0 = 2 then pad_2d_tensor key_data
           else if key = ''labels'' then
             (case cfg of
                None \<Rightarrow> Inl (AttributeError ''span_mode'')
              | Some c \<Rightarrow>
                  (if span_mode c = ''token_level'' then pad_token_labels key_data
                   else Inl (TypeError ''Unsuported amount of dimension for key'')))
           else Inl (TypeError ''Unsuported amount of dimension for key'')))"

text \<open>The body of the loop over the keys (lines 40-65) for one key.\<close>

definition collate_key :: "config option \<Rightarrow> ('a::zero) features list \<Rightarrow> string \<Rightarrow> error + 'a tensor" where
  "collate_key cfg batch key =
     (case collect_key_data batch key of
        Inl e \<Rightarrow> Inl e
      | Inr key_data \<Rightarrow> pad_key_data cfg key key_data)"

text \<open>\<open>DataCollatorWithPadding.__call__\<close>: the keys are those of the first item, in
  its order.\<close>

definition DataCollatorWithPadding_call ::
  "config option \<Rightarrow> ('a::zero) features list \<Rightarrow> error + (string \<times> 'a tensor) list" where
  "DataCollatorWithPadding_call cfg batch =
     (case batch of
        [] \<Rightarrow> Inl (ValueError ''Batch cannot be empty'')
      | item0 # items \<Rightarrow>
          mapM_err (\<lambda>key. case collate_key cfg batch key of
                            Inl e \<Rightarrow> Inl e
                          | Inr padded \<Rightarrow> Inr (key, padded)) (map fst item0))"

section \<open>Entity reconstruction: properties\<close>

lemma py_getitem_in_range:
  "0 \<le> i \<Longrightarrow> i < int (length xs) \<Longrightarrow> py_getitem xs i = Inr (xs ! nat i)"
  by (simp add: py_getitem_def Let_def)

lemma py_getitem_out_of_range:
  "int (length xs) \<le> i \<or> i < - int (length xs) \<Longrightarrow> py_getitem xs i = Inl IndexError"
  by (auto simp: py_getitem_def Let_def)

lemma py_getitem_error: "py_getitem xs i = Inl err \<Longrightarrow> err = IndexError"
  by (auto simp: py_getitem_def Let_def split: if_splits)

lemma py_getitem_valid:
  "- int (length xs) \<le> i \<Longrightarrow> i < int (length xs) \<Longrightarrow>
   py_getitem xs i = Inr (xs ! nat (if i < 0 then i + int (length xs) else i))"
  by (simp add: py_getitem_def Let_def)

lemma text_entities_valid:
  assumes "i < length texts"
    and "\<forall>(s, e, l, sc)\<in>set hyps. - int (length starts) \<le> s \<and> s < int (length starts) \<and>
           - int (length ends) \<le> e \<and> e < int (length ends)"
  shows "text_entities texts i starts ends hyps =
    Inr (map (\<lambda>(s, e, l, sc).
         \<lparr>ent_start = starts ! nat (if s < 0 then s + int (length starts) else s),
          ent_end = ends ! nat (if e < 0 then e + int (length ends) else e),
          ent_text = py_slice (texts ! i)
                       (starts ! nat (if s < 0 then s + int (length starts) else s))
                       (ends ! nat (if e < 0 then e + int (length ends) else e)),
          ent_label = l, ent_score = sc\<rparr>) hyps)"
  using assms
proof (induction hyps)
  case Nil
  then show ?case by simp
next
  case (Cons h hyps)
  obtain s e l sc where h: "h = (s, e, l, sc)" by (cases h) auto
  from Cons.prems(2) h have v: "- int (length starts) \<le> s" "s < int (length starts)"
      "- int (length ends) \<le> e" "e < int (length ends)" by auto
  from Cons.prems(2) have rest: "\<forall>(s, e, l, sc)\<in>set hyps. - int (length starts) \<le> s \<and>
      s < int (length starts) \<and> - int (length ends) \<le> e \<and> e < int (length ends)" by simp
  note IH = Cons.IH[OF Cons.prems(1) rest]
  show ?case
    using Cons.prems(1)
    by (simp add: h py_getitem_valid[OF v(1,2)] py_getitem_valid[OF v(3,4)] IH
          py_getitem_in_range)
qed

lemma text_entities_error:
  "text_entities texts i starts ends hyps = Inl err \<Longrightarrow> err = IndexError"
  by (induction hyps arbitrary: err)
     (auto split: sum.splits dest: py_getitem_error)

lemma text_entities_out_of_range:
  assumes "(s, e, l, sc) \<in> set hyps"
    and "int (length starts) \<le> s \<or> s < - int (length starts) \<or>
         int (length ends) \<le> e \<or> e < - int (length ends)"
  shows "text_entities texts i starts ends hyps = Inl IndexError"
  using assms
proof (induction hyps)
  case Nil
  then show ?case by simp
next
  case (Cons h hyps)
  obtain s' e' l' sc' where h: "h = (s', e', l', sc')" by (cases h) auto
  show ?case
  proof (cases "h = (s, e, l, sc)")
    case True
    with Cons.prems(2) show ?thesis
      by (auto simp: py_getitem_out_of_range split: sum.splits dest: py_getitem_error)
  next
    case False
    with Cons.prems have "(s, e, l, sc) \<in> set hyps" by simp
    from Cons.IH[OF this Cons.prems(2)] show ?thesis
      by (auto simp: h split: sum.splits dest: py_getitem_error)
  qed
qed

lemma all_entities_from_error:
  "all_entities_from texts rb i outputs = Inl err \<Longrightarrow> err = IndexError"
  by (induction outputs arbitrary: i err)
     (auto split: sum.splits dest: py_getitem_error text_entities_error)

lemma all_entities_from_valid:
  assumes "i + length outputs \<le> length texts"
    and "length (all_start_token_idx_to_text_idx rb) = length texts"
    and "length (all_end_token_idx_to_text_idx rb) = length texts"
    and "\<forall>j<length outputs. \<forall>(s, e, l, sc)\<in>set (outputs ! j).
           - int (length (all_start_token_idx_to_text_idx rb ! (i + j))) \<le> s \<and>
           s < int (length (all_start_token_idx_to_text_idx rb ! (i + j))) \<and>
           - int (length (all_end_token_idx_to_text_idx rb ! (i + j))) \<le> e \<and>
           e < int (length (all_end_token_idx_to_text_idx rb ! (i + j)))"
  shows "all_entities_from texts rb i outputs =
    Inr (map (\<lambda>(k, output). map (\<lambda>(s, e, l, sc).
         \<lparr>ent_start = all_start_token_idx_to_text_idx rb ! k !
             nat (if s < 0 then s + int (length (all_start_token_idx_to_text_idx rb ! k)) else s),
          ent_end = all_end_token_idx_to_text_idx rb ! k !
             nat (if e < 0 then e + int (length (all_end_token_idx_to_text_idx rb ! k)) else e),
          ent_text = py_slice (texts ! k)
             (all_start_token_idx_to_text_idx rb ! k !
               nat (if s < 0 then s + int (length (all_start_token_idx_to_text_idx rb ! k)) else s))
             (all_end_token_idx_to_text_idx rb ! k !
               nat (if e < 0 then e + int (length (all_end_token_idx_to_text_idx rb ! k)) else e)),
          ent_label = l, ent_score = sc\<rparr>) output) (enumerate i outputs))"
  using assms
proof (induction outputs arbitrary: i)
  case Nil
  then show ?case by simp
next
  case (Cons out outputs)
  have i: "i < length texts" using Cons.prems(1) by simp
  have hd: "\<forall>(s, e, l, sc)\<in>set out.
           - int (length (all_start_token_idx_to_text_idx rb ! i)) \<le> s \<and>
           s < int (length (all_start_token_idx_to_text_idx rb ! i)) \<and>
           - int (length (all_end_token_idx_to_text_idx rb ! i)) \<le> e \<and>
           e < int (length (all_end_token_idx_to_text_idx rb ! i))"
    using Cons.prems(4)[rule_format, of 0] by simp
  have tl: "\<forall>j<length outputs. \<forall>(s, e, l, sc)\<in>set (outputs ! j).
           - int (length (all_start_token_idx_to_text_idx rb ! (Suc i + j))) \<le> s \<and>
           s < int (length (all_start_token_idx_to_text_idx rb ! (Suc i + j))) \<and>
           - int (length (all_end_token_idx_to_text_idx rb ! (Suc i + j))) \<le> e \<and>
           e < int (length (all_end_token_idx_to_text_idx rb ! (Suc i + j)))"
  proof (intro allI impI)
    fix j assume "j < length outputs"
    then show "\<forall>(s, e, l, sc)\<in>set (outputs ! j).
           - int (length (all_start_token_idx_to_text_idx rb ! (Suc i + j))) \<le> s \<and>
           s < int (length (all_start_token_idx_to_text_idx rb ! (Suc i + j))) \<and>
           - int (length (all_end_token_idx_to_text_idx rb ! (Suc i + j))) \<le> e \<and>
           e < int (length (all_end_token_idx_to_text_idx rb ! (Suc i + j)))"
      using Cons.prems(4)[rule_format, of "Suc j"] by simp
  qed
  have len: "Suc i + length outputs \<le> length texts" using Cons.prems(1) by simp
  note IH = Cons.IH[OF len Cons.prems(2,3) tl]
  show ?case
    using i Cons.prems(2,3)
    by (simp add: py_getitem_in_range text_entities_valid[OF i hd] IH)
qed

lemma all_entities_from_out_of_range:
  assumes "j < length outputs" and "i + j < length texts"
    and "length (all_start_token_idx_to_text_idx rb) = length texts"
    and "length (all_end_token_idx_to_text_idx rb) = length texts"
    and "(s, e, l, sc) \<in> set (outputs ! j)"
    and "int (length (all_start_token_idx_to_text_idx rb ! (i + j))) \<le> s \<or>
         s < - int (length (all_start_token_idx_to_text_idx rb ! (i + j))) \<or>
         int (length (all_end_token_idx_to_text_idx rb ! (i + j))) \<le> e \<or>
         e < - int (length (all_end_token_idx_to_text_idx rb ! (i + j)))"
  shows "all_entities_from texts rb i outputs = Inl IndexError"
  using assms
proof (induction outputs arbitrary: i j)
  case Nil
  then show ?case by simp
next
  case (Cons out outputs)
  show ?case
  proof (cases j)
    case 0
    with Cons.prems have i: "i < length texts" by simp
    have "text_entities texts i (all_start_token_idx_to_text_idx rb ! i)
            (all_end_token_idx_to_text_idx rb ! i) out = Inl IndexError"
      using text_entities_out_of_range[of s e l sc out] Cons.prems(5,6) 0 by simp
    then show ?thesis
      using i Cons.prems(3,4) by (simp add: py_getitem_in_range)
  next
    case (Suc j')
    have "all_entities_from texts rb (Suc i) outputs = Inl IndexError"
      using Cons.IH[of j' "Suc i"] Cons.prems Suc by simp
    then show ?thesis
      by (auto split: sum.splits dest: py_getitem_error text_entities_error)
  qed
qed

lemma prepare_offsets:
  assumes "prepare_model_inputs onnx dev ws crb cfn texts labels = Inr (model_input, rb)"
  shows "all_start_token_idx_to_text_idx rb = map (\<lambda>text. map (\<lambda>(token, s, e). s) (ws text)) texts"
    and "all_end_token_idx_to_text_idx rb = map (\<lambda>text. map (\<lambda>(token, s, e). e) (ws text)) texts"
  using assms
  by (auto simp: prepare_model_inputs_def Let_def split: sum.splits)

text \<open>
  Claim C1, as amended. When the decoder gives at most one hypothesis list per text and
  no hypothesis of the batch has an index that list indexing rejects (each index is at
  least minus the length of its text's offset arrays and below that length),
  \<open>batch_predict_entities\<close> returns one entity per hypothesis, in the decoder's order:
  its start is \<open>start_char_of_token[start_token_idx]\<close>, its end is
  \<open>end_char_of_token[end_token_idx]\<close> (a negative index counting from the end), its text is
  the slice of the original text between these two offsets, and its label and score are
  those of the hypothesis. In particular, for every hypothesis whose two indices are
  within \<open>0 ..< length\<close>, the entity is the one of the offsets at these very positions.
\<close>

theorem C1_entity_reconstruction:
  fixes ws :: "string \<Rightarrow> (string \<times> int \<times> int) list"
    and texts :: "string list"
  defines "pos \<equiv> \<lambda>(toks :: (string \<times> int \<times> int) list) (k :: int).
                    nat (if k < 0 then k + int (length toks) else k)"
  defines "entity_of \<equiv> \<lambda>i (s, e, l, sc).
         \<lparr>ent_start = fst (snd (ws (texts ! i) ! pos (ws (texts ! i)) s)),
          ent_end = snd (snd (ws (texts ! i) ! pos (ws (texts ! i)) e)),
          ent_text = py_slice (texts ! i) (fst (snd (ws (texts ! i) ! pos (ws (texts ! i)) s)))
                       (snd (snd (ws (texts ! i) ! pos (ws (texts ! i)) e))),
          ent_label = l, ent_score = sc\<rparr>"
  assumes prep: "prepare_model_inputs onnx dev ws crb cfn texts labels = Inr (model_input, rb)"
    and outs: "predict model_input rb = outputs"
    and len: "length outputs \<le> length texts"
    and valid: "\<forall>i<length outputs. \<forall>(s, e, l, sc)\<in>set (outputs ! i).
           - int (length (ws (texts ! i))) \<le> s \<and> s < int (length (ws (texts ! i))) \<and>
           - int (length (ws (texts ! i))) \<le> e \<and> e < int (length (ws (texts ! i)))"
  shows "batch_predict_entities onnx dev ws crb cfn predict texts labels =
           Inr (map (\<lambda>(i, output). map (entity_of i) output) (enumerate 0 outputs)) \<and>
         (\<forall>i<length outputs. \<forall>j<length (outputs ! i). \<forall>s e l sc.
            outputs ! i ! j = (s, e, l, sc) \<and> 0 \<le> s \<and> 0 \<le> e \<longrightarrow>
            map (\<lambda>(i, output). map (entity_of i) output) (enumerate 0 outputs) ! i ! j =
              \<lparr>ent_start = fst (snd (ws (texts ! i) ! nat s)),
               ent_end = snd (snd (ws (texts ! i) ! nat e)),
               ent_text = py_slice (texts ! i) (fst (snd (ws (texts ! i) ! nat s)))
                            (snd (snd (ws (texts ! i) ! nat e))),
               ent_label = l, ent_score = sc\<rparr>)"
proof -
  note offs = prepare_offsets[OF prep]
  let ?F = "(\<lambda>k (s, e, l, sc).
         \<lparr>ent_start = all_start_token_idx_to_text_idx rb ! k !
             nat (if s < 0 then s + int (length (all_start_token_idx_to_text_idx rb ! k)) else s),
          ent_end = all_end_token_idx_to_text_idx rb ! k !
             nat (if e < 0 then e + int (length (all_end_token_idx_to_text_idx rb ! k)) else e),
          ent_text = py_slice (texts ! k)
             (all_start_token_idx_to_text_idx rb ! k !
               nat (if s < 0 then s + int (length (all_start_token_idx_to_text_idx rb ! k)) else s))
             (all_end_token_idx_to_text_idx rb ! k !
               nat (if e < 0 then e + int (length (all_end_token_idx_to_text_idx rb ! k)) else e)),
          ent_label = l, ent_score = sc\<rparr>)"
  have valid': "\<forall>j<length outputs. \<forall>(s, e, l, sc)\<in>set (outputs ! j).
           - int (length (all_start_token_idx_to_text_idx rb ! (0 + j))) \<le> s \<and>
           s < int (length (all_start_token_idx_to_text_idx rb ! (0 + j))) \<and>
           - int (length (all_end_token_idx_to_text_idx rb ! (0 + j))) \<le> e \<and>
           e < int (length (all_end_token_idx_to_text_idx rb ! (0 + j)))"
    using valid len by (auto simp: offs)
  have len': "0 + length outputs \<le> length texts" using len by simp
  have run: "all_entities_from texts rb 0 outputs =
    Inr (map (\<lambda>(k, output). map (?F k) output) (enumerate 0 outputs))"
    by (rule all_entities_from_valid[OF len' _ _ valid']) (simp_all add: offs)
  have eq: "?F k h = entity_of k h"
    if a: "(k, out) \<in> set (enumerate 0 outputs)" and b: "h \<in> set out" for k out h
  proof -
    obtain s e l sc where h: "h = (s, e, l, sc)" by (cases h) auto
    from a have k: "k < length outputs" and o: "out = outputs ! k"
      by (auto simp: in_set_enumerate_eq)
    from valid k b o h have r: "- int (length (ws (texts ! k))) \<le> s \<and> s < int (length (ws (texts ! k))) \<and>
           - int (length (ws (texts ! k))) \<le> e \<and> e < int (length (ws (texts ! k)))" by fastforce
    from k len have kt: "k < length texts" by simp
    define ps where "ps = nat (if s < 0 then s + int (length (ws (texts ! k))) else s)"
    define pe where "pe = nat (if e < 0 then e + int (length (ws (texts ! k))) else e)"
    from r have lt: "ps < length (ws (texts ! k))" "pe < length (ws (texts ! k))"
      by (auto simp: ps_def pe_def)
    have S: "map (\<lambda>(token, s, e). s) (ws (texts ! k)) ! ps = fst (snd (ws (texts ! k) ! ps))"
      using lt by (simp add: split_beta)
    have E: "map (\<lambda>(token, s, e). e) (ws (texts ! k)) ! pe = snd (snd (ws (texts ! k) ! pe))"
      using lt by (simp add: split_beta)
    show ?thesis
      unfolding h entity_of_def pos_def offs nth_map[OF kt] length_map prod.case
        ps_def[symmetric] pe_def[symmetric] S E
      by simp
  qed
  have "map (\<lambda>(k, output). map (?F k) output) (enumerate 0 outputs) =
        map (\<lambda>(i, output). map (entity_of i) output) (enumerate 0 outputs)"
  proof (rule map_cong[OF refl])
    fix p assume p: "p \<in> set (enumerate 0 outputs)"
    obtain k out where kp: "p = (k, out)" by (cases p) auto
    have "map (?F k) out = map (entity_of k) out"
      by (rule map_cong[OF refl]) (rule eq[OF p[unfolded kp]])
    then show "(case p of (k, output) \<Rightarrow> map (?F k) output) =
               (case p of (i, output) \<Rightarrow> map (entity_of i) output)"
      unfolding kp prod.case .
  qed
  with run have "all_entities_from texts rb 0 outputs =
          Inr (map (\<lambda>(i, output). map (entity_of i) output) (enumerate 0 outputs))"
    by simp
  then have A: "batch_predict_entities onnx dev ws crb cfn predict texts labels =
           Inr (map (\<lambda>(i, output). map (entity_of i) output) (enumerate 0 outputs))"
    using prep outs by (simp add: batch_predict_entities_def)
  have B: "\<forall>i<length outputs. \<forall>j<length (outputs ! i). \<forall>s e l sc.
            outputs ! i ! j = (s, e, l, sc) \<and> 0 \<le> s \<and> 0 \<le> e \<longrightarrow>
            map (\<lambda>(i, output). map (entity_of i) output) (enumerate 0 outputs) ! i ! j =
              \<lparr>ent_start = fst (snd (ws (texts ! i) ! nat s)),
               ent_end = snd (snd (ws (texts ! i) ! nat e)),
               ent_text = py_slice (texts ! i) (fst (snd (ws (texts ! i) ! nat s)))
                            (snd (snd (ws (texts ! i) ! nat e))),
               ent_label = l, ent_score = sc\<rparr>"
    by (simp add: nth_enumerate_eq entity_of_def pos_def)
  from A B show ?thesis by blast
qed

theorem C1_entity_reconstruction_witness:
  "batch_predict_entities True ''cpu''
     (\<lambda>text. [(''Alice'', 0, 5), (''met'', 6, 9), (''Bob'', 10, 13)])
     (\<lambda>tokens labels. [(''seq_length'', OtherVal (3::nat) :: (unit, nat) pyval)])
     (\<lambda>raw. [])
     (\<lambda>model_input raw_batch. [[(0, 0, ''PERSON'', 0.95::real), (2, 2, ''PERSON'', 0.88),
                                  (- 3, - 1, ''EVENT'', 0.6)]])
     [''Alice met Bob''] [''PERSON''] =
   Inr [[\<lparr>ent_start = 0, ent_end = 5, ent_text = ''Alice'', ent_label = ''PERSON'',
           ent_score = 0.95\<rparr>,
         \<lparr>ent_start = 10, ent_end = 13, ent_text = ''Bob'', ent_label = ''PERSON'',
           ent_score = 0.88\<rparr>,
         \<lparr>ent_start = 0, ent_end = 13, ent_text = ''Alice met Bob'', ent_label = ''EVENT'',
           ent_score = 0.6\<rparr>]]"
proof -
  let ?ws = "\<lambda>text::string. [(''Alice'', 0::int, 5::int), (''met'', 6, 9), (''Bob'', 10, 13)]"
  let ?crb = "\<lambda>(tokens::string list list) (labels::string list).
                [(''seq_length'', OtherVal (3::nat) :: (unit, nat) pyval)]"
  let ?cfn = "\<lambda>raw::(unit, nat) pydict. [] :: (unit, nat) pydict"
  let ?outs = "[[(0::int, 0::int, ''PERSON'', 0.95::real), (2, 2, ''PERSON'', 0.88),
                 (- 3, - 1, ''EVENT'', 0.6)]]"
  let ?predict = "\<lambda>(model_input::(unit, nat) pydict) (raw_batch::(unit, nat) raw_batch). ?outs"
  obtain mi rb where prep:
    "prepare_model_inputs True ''cpu'' ?ws ?crb ?cfn [''Alice met Bob''] [''PERSON''] = Inr (mi, rb)"
    by (simp add: prepare_model_inputs_def merge_batch_keys_def Let_def)
  have outs: "?predict mi rb = ?outs" by simp
  have len: "length ?outs \<le> length [''Alice met Bob'']" by simp
  have valid: "\<forall>i<length ?outs. \<forall>(s, e, l, sc)\<in>set (?outs ! i).
           - int (length (?ws ([''Alice met Bob''] ! i))) \<le> s \<and>
           s < int (length (?ws ([''Alice met Bob''] ! i))) \<and>
           - int (length (?ws ([''Alice met Bob''] ! i))) \<le> e \<and>
           e < int (length (?ws ([''Alice met Bob''] ! i)))"
    by simp
  note r = C1_entity_reconstruction[OF prep outs len valid, THEN conjunct1]
  have s1: "py_slice ''Alice met Bob'' 0 5 = ''Alice''" by (simp add: py_slice_def)
  have s2: "py_slice ''Alice met Bob'' 10 13 = ''Bob''" by (simp add: py_slice_def)
  have s3: "py_slice ''Alice met Bob'' 0 13 = ''Alice met Bob''" by (simp add: py_slice_def)
  show ?thesis
    unfolding r by (simp add: s1 s2 s3)
qed

text \<open>
  Claim C1 as first stated fails: a hypothesis with indices within the bounds gets no
  entity when another hypothesis of the batch has an index out of range, or when the
  decoder gives one list more than there are texts, since the first IndexError ends the
  whole call.
\<close>

theorem C1_other_hypothesis_counterexample:
  "batch_predict_entities True ''cpu''
     (\<lambda>text. [(''Alice'', 0, 5), (''met'', 6, 9), (''Bob'', 10, 13)])
     (\<lambda>tokens labels. [(''seq_length'', OtherVal (3::nat) :: (unit, nat) pyval)])
     (\<lambda>raw. [])
     (\<lambda>model_input raw_batch. [[(0, 0, ''PERSON'', 0.95::real), (3, 3, ''PERSON'', 0.5)]])
     [''Alice met Bob''] [''PERSON''] = (Inl IndexError :: error + (string, real) entity list list) \<and>
   batch_predict_entities True ''cpu''
     (\<lambda>text. [(''Alice'', 0, 5), (''met'', 6, 9), (''Bob'', 10, 13)])
     (\<lambda>tokens labels. [(''seq_length'', OtherVal (3::nat) :: (unit, nat) pyval)])
     (\<lambda>raw. [])
     (\<lambda>model_input raw_batch. [[(0, 0, ''PERSON'', 0.95::real)], []])
     [''Alice met Bob''] [''PERSON''] = (Inl IndexError :: error + (string, real) entity list list)"
  by (simp add: batch_predict_entities_def prepare_model_inputs_def merge_batch_keys_def
        move_inputs_def py_getitem_def py_slice_def Let_def)

text \<open>
  Claim C6, as amended. A hypothesis whose start or end index is at least the length of
  the text's offset table, or below minus that length, makes \<open>batch_predict_entities\<close>
  raise IndexError: no entity list is returned. (An index from minus the length to -1 is
  accepted by the list indexing and counts from the end.)
\<close>

theorem C6_index_out_of_range_raises:
  assumes prep: "prepare_model_inputs onnx dev ws crb cfn texts labels = Inr (model_input, rb)"
    and outs: "predict model_input rb = outputs"
    and i: "i < length outputs" "i < length texts"
    and h: "(s, e, l, sc) \<in> set (outputs ! i)"
    and bad: "int (length (ws (texts ! i))) \<le> s \<or> s < - int (length (ws (texts ! i))) \<or>
              int (length (ws (texts ! i))) \<le> e \<or> e < - int (length (ws (texts ! i)))"
  shows "batch_predict_entities onnx dev ws crb cfn predict texts labels = Inl IndexError"
proof -
  note offs = prepare_offsets[OF prep]
  have "all_entities_from texts rb 0 outputs = Inl IndexError"
    by (rule all_entities_from_out_of_range[where j = i and s = s and e = e and l = l and sc = sc])
       (use i h bad in \<open>simp_all add: offs\<close>)
  then show ?thesis
    using prep outs by (simp add: batch_predict_entities_def)
qed

theorem C6_index_out_of_range_raises_witness:
  "batch_predict_entities True ''cpu''
     (\<lambda>text. [(''Alice'', 0, 5), (''met'', 6, 9), (''Bob'', 10, 13)])
     (\<lambda>tokens labels. [(''seq_length'', OtherVal (3::nat) :: (unit, nat) pyval)])
     (\<lambda>raw. [])
     (\<lambda>model_input raw_batch. [[(0, 3, ''PERSON'', 0.9::real)]])
     [''Alice met Bob''] [''PERSON''] = (Inl IndexError :: error + (string, real) entity list list)"
proof -
  let ?ws = "\<lambda>text::string. [(''Alice'', 0::int, 5::int), (''met'', 6, 9), (''Bob'', 10, 13)]"
  let ?crb = "\<lambda>(tokens::string list list) (labels::string list).
                [(''seq_length'', OtherVal (3::nat) :: (unit, nat) pyval)]"
  let ?cfn = "\<lambda>raw::(unit, nat) pydict. [] :: (unit, nat) pydict"
  let ?outs = "[[(0::int, 3::int, ''PERSON'', 0.9::real)]]"
  let ?predict = "\<lambda>(model_input::(unit, nat) pydict) (raw_batch::(unit, nat) raw_batch). ?outs"
  obtain mi rb where prep:
    "prepare_model_inputs True ''cpu'' ?ws ?crb ?cfn [''Alice met Bob''] [''PERSON''] = Inr (mi, rb)"
    by (simp add: prepare_model_inputs_def merge_batch_keys_def Let_def)
  have outs: "?predict mi rb = ?outs" by simp
  have h: "(0, 3, ''PERSON'', 0.9) \<in> set (?outs ! 0)" by simp
  have bad: "int (length (?ws ([''Alice met Bob''] ! 0))) \<le> 0 \<or>
             0 < - int (length (?ws ([''Alice met Bob''] ! 0))) \<or>
             int (length (?ws ([''Alice met Bob''] ! 0))) \<le> 3 \<or>
             3 < - int (length (?ws ([''Alice met Bob''] ! 0)))" by simp
  show ?thesis
    by (rule C6_index_out_of_range_raises[OF prep outs _ _ h bad]) simp_all
qed

text \<open>
  Claim C6 as first stated fails for an index outside \<open>0 ..< length\<close> that is negative:
  with one token, the start index -1 gives an entity and no error.
\<close>

theorem C6_negative_index_counterexample:
  "batch_predict_entities True ''cpu''
     (\<lambda>text. [(''Alice'', 0, 5)])
     (\<lambda>tokens labels. [(''seq_length'', OtherVal (1::nat) :: (unit, nat) pyval)])
     (\<lambda>raw. [])
     (\<lambda>model_input raw_batch. [[(- 1, 0, ''PERSON'', 0.9::real)]])
     [''Alice''] [''PERSON''] =
   Inr [[\<lparr>ent_start = 0, ent_end = 5, ent_text = ''Alice'', ent_label = ''PERSON'',
           ent_score = 0.9\<rparr>]]"
  by (simp add: batch_predict_entities_def prepare_model_inputs_def merge_batch_keys_def
        move_inputs_def py_getitem_def py_slice_def Let_def)

section \<open>Input building: properties\<close>

text \<open>
  Claim C2. The claim asks that the tensors of the model input be moved to the encoder's
  device when the model is not the ONNX variant. The constructor sets \<open>onnx_model\<close> to
  \<open>True\<close> in both branches, so the move is skipped: with a model that is not an ONNX
  model and whose parameters are on \<open>cuda\<close>, the tensors are returned on \<open>cpu\<close>.
\<close>

theorem C2_tensors_stay_on_their_device:
  "prepare_model_inputs (init_onnx_model False) ''cuda'' (\<lambda>text. [(''Hi'', 0, 2)])
     (\<lambda>tokens labels. [(''seq_length'', TensorVal ''cpu'' (1::nat) :: (nat, unit) pyval)])
     (\<lambda>raw. [(''input_ids'', TensorVal ''cpu'' 7)]) [''Hi''] [''PERSON''] =
   Inr ([(''input_ids'', TensorVal ''cpu'' 7), (''span_idx'', NoneVal), (''span_mask'', NoneVal),
         (''text_lengths'', TensorVal ''cpu'' 1)],
        \<lparr>entries = [(''seq_length'', TensorVal ''cpu'' 1)],
         all_start_token_idx_to_text_idx = [[0]], all_end_token_idx_to_text_idx = [[2]]\<rparr>)"
  by (simp add: prepare_model_inputs_def init_onnx_model_def move_inputs_def
        merge_batch_keys_def Let_def)

text \<open>
  Claim C3, as amended. When the raw batch has \<open>seq_length\<close>, the dispatcher returns the
  strategy's collated output in which \<open>span_idx\<close> and \<open>span_mask\<close> are the raw batch's
  values, or \<open>None\<close> when the raw batch has none, and \<open>text_lengths\<close> is the raw batch's
  \<open>seq_length\<close>; these three assignments replace whatever the collated output held under
  the same keys, and every other key keeps its value.
\<close>

theorem C3_merge_overwrites:
  assumes "map_of (collate_raw_batch input_x) ''seq_length'' = Some text_lengths"
  shows "\<exists>model_input. DataCollator_call collate_raw_batch collate_fn input_x = Inr model_input \<and>
     map_of model_input ''span_idx'' =
       Some (case map_of (collate_raw_batch input_x) ''span_idx'' of Some v \<Rightarrow> v | None \<Rightarrow> NoneVal) \<and>
     map_of model_input ''span_mask'' =
       Some (case map_of (collate_raw_batch input_x) ''span_mask'' of Some v \<Rightarrow> v | None \<Rightarrow> NoneVal) \<and>
     map_of model_input ''text_lengths'' = Some text_lengths \<and>
     (\<forall>key. key \<notin> {''span_idx'', ''span_mask'', ''text_lengths''} \<longrightarrow>
        map_of model_input key = map_of (collate_fn (collate_raw_batch input_x)) key)"
  using assms
  by (simp add: DataCollator_call_def merge_batch_keys_def Let_def update_conv')

theorem C3_merge_overwrites_witness:
  "\<exists>model_input. DataCollator_call (\<lambda>input_x. [(''seq_length'', OtherVal (3::nat)), (''span_mask'', TensorVal ''cpu'' (5::nat))])
       (\<lambda>raw. [(''span_idx'', TensorVal ''cpu'' (1::nat)), (''input_ids'', TensorVal ''cpu'' 2)]) () = Inr model_input \<and>
     map_of model_input ''span_idx'' = Some NoneVal \<and>
     map_of model_input ''span_mask'' = Some (TensorVal ''cpu'' 5) \<and>
     map_of model_input ''text_lengths'' = Some (OtherVal 3) \<and>
     map_of model_input ''input_ids'' = Some (TensorVal ''cpu'' 2)"
proof -
  let ?crb = "\<lambda>input_x::unit. [(''seq_length'', OtherVal (3::nat)), (''span_mask'', TensorVal ''cpu'' (5::nat))]"
  let ?cfn = "\<lambda>raw::(nat, nat) pydict. [(''span_idx'', TensorVal ''cpu'' (1::nat)), (''input_ids'', TensorVal ''cpu'' (2::nat) :: (nat, nat) pyval)]"
  have seq: "map_of (?crb ()) ''seq_length'' = Some (OtherVal 3)" by simp
  from C3_merge_overwrites[of ?crb "()" "OtherVal 3" ?cfn, OF seq]
  obtain m where m: "DataCollator_call ?crb ?cfn () = Inr m"
    and a: "map_of m ''span_idx'' = Some (case map_of (?crb ()) ''span_idx'' of Some v \<Rightarrow> v | None \<Rightarrow> NoneVal)"
    and b: "map_of m ''span_mask'' = Some (case map_of (?crb ()) ''span_mask'' of Some v \<Rightarrow> v | None \<Rightarrow> NoneVal)"
    and c: "map_of m ''text_lengths'' = Some (OtherVal 3)"
    and d: "\<forall>key. key \<notin> {''span_idx'', ''span_mask'', ''text_lengths''} \<longrightarrow>
        map_of m key = map_of (?cfn (?crb ())) key"
    by blast
  from d have "map_of m ''input_ids'' = map_of (?cfn (?crb ())) ''input_ids''" by simp
  then have e: "map_of m ''input_ids'' = Some (TensorVal ''cpu'' 2)" by simp
  from a have a': "map_of m ''span_idx'' = Some NoneVal" by simp
  from b have b': "map_of m ''span_mask'' = Some (TensorVal ''cpu'' 5)" by simp
  from m a' b' c e show ?thesis by blast
qed

text \<open>
  Claim C3 as first stated fails: a \<open>span_idx\<close> already in the collated output is
  replaced by \<open>None\<close> when the raw batch has no \<open>span_idx\<close>.
\<close>

theorem C3_existing_key_overwritten_counterexample:
  "DataCollator_call (\<lambda>input_x. [(''seq_length'', OtherVal (3::nat))])
     (\<lambda>raw. [(''span_idx'', TensorVal ''cpu'' (1::nat)), (''input_ids'', TensorVal ''cpu'' 2)]) () =
   Inr [(''span_idx'', NoneVal), (''input_ids'', TensorVal ''cpu'' 2), (''span_mask'', NoneVal),
        (''text_lengths'', OtherVal 3)]"
  by (simp add: DataCollator_call_def merge_batch_keys_def Let_def)

section \<open>The padding engine: properties\<close>

lemma mapM_err_all_ok:
  "(\<And>x. x \<in> set xs \<Longrightarrow> f x = Inr (g x)) \<Longrightarrow> mapM_err f xs = Inr (map g xs)"
  by (induction xs) auto

lemma collect_key_data_tensors:
  "map (\<lambda>item. map_of item key) batch = map (\<lambda>t. Some (FTensor t)) ts \<Longrightarrow>
   collect_key_data batch key = Inr (map squeeze0 ts)"
proof (induction batch arbitrary: ts)
  case Nil
  then show ?case by (simp add: collect_key_data_def)
next
  case (Cons item batch)
  then obtain t ts' where ts: "ts = t # ts'" by (cases ts) auto
  with Cons.prems have hd: "map_of item key = Some (FTensor t)"
    and tl: "map (\<lambda>item. map_of item key) batch = map (\<lambda>t. Some (FTensor t)) ts'"
    by auto
  from Cons.IH[OF tl] show ?case
    by (simp add: collect_key_data_def hd ts squeeze_item_def)
qed

lemma collate_key_tensors:
  "map (\<lambda>item. map_of item key) batch = map (\<lambda>t. Some (FTensor t)) ts \<Longrightarrow>
   collate_key cfg batch key = pad_key_data cfg key (map squeeze0 ts)"
  by (simp add: collate_key_def collect_key_data_tensors)

lemma max_of_ge: "n \<in> set ns \<Longrightarrow> n \<le> max_of ns"
  by (simp add: max_of_def)

lemma max_of_const: "ns \<noteq> [] \<Longrightarrow> (\<And>x. x \<in> set ns \<Longrightarrow> x = n) \<Longrightarrow> max_of ns = n"
proof -
  assume a: "ns \<noteq> []" and b: "\<And>x. x \<in> set ns \<Longrightarrow> x = n"
  then have "set ns = {n}" by (cases ns) auto
  then show ?thesis by (simp add: max_of_def)
qed

lemma concat_block:
  "(\<And>xs. xs \<in> set xss \<Longrightarrow> length xs = m) \<Longrightarrow> i < length xss \<Longrightarrow>
   take m (drop (i * m) (concat xss)) = xss ! i"
proof (induction xss arbitrary: i)
  case Nil
  then show ?case by simp
next
  case (Cons xs xss)
  have l: "length xs = m" using Cons.prems(1) by simp
  show ?case
  proof (cases i)
    case 0
    then show ?thesis using l by simp
  next
    case (Suc j)
    then have "j < length xss" using Cons.prems(2) by simp
    then have "take m (drop (j * m) (concat xss)) = xss ! j"
      using Cons.IH Cons.prems(1) by simp
    then show ?thesis using Suc l by (simp add: add.commute)
  qed
qed

lemma concat_rows_of: "concat (rows_of r c xs) = take (r * c) xs"
proof (induction r)
  case 0
  then show ?case by (simp add: rows_of_def)
next
  case (Suc r)
  have "rows_of (Suc r) c xs = rows_of r c xs @ [take c (drop (r * c) xs)]"
    by (simp add: rows_of_def)
  moreover have "take (Suc r * c) xs = take (r * c) xs @ take c (drop (r * c) xs)"
    using take_add[of "r * c" c xs] by (simp add: add.commute)
  ultimately show ?case using Suc by simp
qed

lemma pad_sequence_rows:
  assumes "rows \<noteq> []"
  shows "pad_sequence (map (\<lambda>r. \<lparr>shape = [length r], elems = r\<rparr>) rows) =
    Inr \<lparr>shape = [length rows, max_of (map length rows)],
         elems = concat (map (\<lambda>r. r @ replicate (max_of (map length rows) - length r) 0) rows)\<rparr>"
  using assms
  by (simp add: pad_sequence_def list_all_iff dim_def Let_def comp_def)

lemma squeeze0_rank1: "n \<noteq> 1 \<Longrightarrow> squeeze0 \<lparr>shape = [n], elems = r\<rparr> = \<lparr>shape = [n], elems = r\<rparr>"
  by (simp add: squeeze0_def)

lemma pad_key_data_rank1:
  assumes "rows \<noteq> []"
  shows "pad_key_data cfg key (map (\<lambda>r. \<lparr>shape = [length r], elems = r\<rparr>) rows) =
    Inr \<lparr>shape = [length rows, max_of (map length rows)],
         elems = concat (map (\<lambda>r. r @ replicate (max_of (map length rows) - length r) 0) rows)\<rparr>"
proof -
  from assms obtain r rs where rows: "rows = r # rs" by (cases rows) auto
  have "pad_key_data cfg key (map (\<lambda>r. \<lparr>shape = [length r], elems = r\<rparr>) rows) =
        pad_sequence (map (\<lambda>r. \<lparr>shape = [length r], elems = r\<rparr>) rows)"
    by (simp add: rows pad_key_data_def dim_def)
  then show ?thesis using pad_sequence_rows[OF assms] by simp
qed

lemma mapM_err_lookup:
  "mapM_err (\<lambda>k. case f k of Inl e \<Rightarrow> Inl e | Inr p \<Rightarrow> Inr (k, p)) keys = Inr out \<Longrightarrow>
   key \<in> set keys \<Longrightarrow> f key = Inr v \<Longrightarrow> map_of out key = Some v"
proof (induction keys arbitrary: out)
  case Nil
  then show ?case by simp
next
  case (Cons k keys)
  from Cons.prems(1) obtain p ps where p: "f k = Inr p"
    and ps: "mapM_err (\<lambda>k. case f k of Inl e \<Rightarrow> Inl e | Inr p \<Rightarrow> Inr (k, p)) keys = Inr ps"
    and out: "out = (k, p) # ps"
    by (auto split: sum.splits)
  show ?case
  proof (cases "key = k")
    case True
    then show ?thesis using p out Cons.prems(3) by simp
  next
    case False
    then have "key \<in> set keys" using Cons.prems(2) by simp
    from Cons.IH[OF ps this Cons.prems(3)] show ?thesis using False out by simp
  qed
qed

lemma call_lookup:
  assumes call: "DataCollatorWithPadding_call cfg batch = Inr out"
    and vals: "map (\<lambda>item. map_of item key) batch = map (\<lambda>t. Some (FTensor t)) ts"
    and ne: "batch \<noteq> []"
    and res: "collate_key cfg batch key = Inr padded"
  shows "map_of out key = Some padded"
proof -
  from ne obtain item0 items where b: "batch = item0 # items" by (cases batch) auto
  with vals obtain t where "map_of item0 key = Some (FTensor t)" by (cases ts) auto
  then have k: "key \<in> set (map fst item0)"
    by (metis map_of_eq_None_iff option.distinct(1) set_map)
  from call have m: "mapM_err (\<lambda>k. case collate_key cfg batch k of Inl e \<Rightarrow> Inl e
                          | Inr p \<Rightarrow> Inr (k, p)) (map fst item0) = Inr out"
    by (simp add: DataCollatorWithPadding_call_def b)
  show ?thesis
    by (rule mapM_err_lookup[where f = "collate_key cfg batch", OF m k res])
qed

lemma rows_of_concat:
  "(\<And>xs. xs \<in> set xss \<Longrightarrow> length xs = m) \<Longrightarrow> rows_of (length xss) m (concat xss) = xss"
  by (rule nth_equalityI) (simp_all add: rows_of_def concat_block)

lemma squeeze0_id: "shape t \<noteq> [] \<Longrightarrow> hd (shape t) \<noteq> 1 \<Longrightarrow> squeeze0 t = t"
  by (auto simp: squeeze0_def split: list.splits)

lemma F_pad_nothing:
  assumes "shape t = [r, c]" and "wf_tensor t"
  shows "F_pad t 0 0 = Inr t"
proof -
  have len: "length (elems t) = r * c" using assms by (simp add: wf_tensor_def)
  have one: "rows_of (Suc 0) (r * c) (elems t) = [elems t]"
    using len by (simp add: rows_of_def)
  have "pad_matrix r c 0 0 (elems t) = concat (rows_of r c (elems t))"
    by (simp add: pad_matrix_def)
  also have "\<dots> = elems t" using len by (simp add: concat_rows_of)
  finally have pm: "pad_matrix r c 0 0 (elems t) = elems t" .
  have "F_pad t 0 0 = Inr \<lparr>shape = [r, c], elems = elems t\<rparr>"
    using assms(1) by (simp add: F_pad_def dim_def Let_def one pm)
  also have "\<lparr>shape = [r, c], elems = elems t\<rparr> = t"
    using assms(1) by (cases t) simp
  finally show ?thesis .
qed

lemma stack_uniform:
  assumes "ts \<noteq> []" and "list_all (\<lambda>t. shape t = sh) ts"
  shows "stack ts = Inr \<lparr>shape = length ts # sh, elems = concat (map elems ts)\<rparr>"
  using assms by (cases ts) (auto simp: stack_def list_all_iff)

lemma pad_sequence_uniform:
  assumes "ts \<noteq> []" and "list_all (\<lambda>t. shape t = [n]) ts" and "list_all wf_tensor ts"
  shows "pad_sequence ts = Inr \<lparr>shape = [length ts, n], elems = concat (map elems ts)\<rparr>"
proof -
  have d: "list_all (\<lambda>t. dim t = 1) ts" using assms(2) by (simp add: list_all_iff dim_def)
  have mx: "max_of (map (\<lambda>t. shape t ! 0) ts) = n"
    by (rule max_of_const) (use assms in \<open>auto simp: list_all_iff\<close>)
  have e: "map (\<lambda>t. elems t @ replicate (n - shape t ! 0) 0) ts = map elems ts"
    using assms(2) by (simp add: list_all_iff)
  show ?thesis using assms(1) d unfolding pad_sequence_def Let_def mx e by simp
qed

lemma pad_2d_tensor_uniform:
  assumes "ts \<noteq> []" and "list_all (\<lambda>t. shape t = [r, c]) ts" and "list_all wf_tensor ts"
  shows "pad_2d_tensor ts = stack ts"
proof -
  have sh: "\<And>t. t \<in> set ts \<Longrightarrow> shape t = [r, c]" using assms(2) by (simp add: list_all_iff)
  have wf: "\<And>t. t \<in> set ts \<Longrightarrow> wf_tensor t" using assms(3) by (simp add: list_all_iff)
  have d1: "\<not> list_ex (\<lambda>t. dim t < 1) ts" using sh by (auto simp: list_ex_iff dim_def)
  have d2: "\<not> list_ex (\<lambda>t. dim t < 2) ts" using sh by (auto simp: list_ex_iff dim_def)
  have mr: "max_of (map (\<lambda>t. shape t ! 0) ts) = r"
    by (rule max_of_const) (use assms(1) sh in auto)
  have mc: "max_of (map (\<lambda>t. shape t ! 1) ts) = c"
    by (rule max_of_const) (use assms(1) sh in auto)
  have "mapM_err (\<lambda>t. if dim t = 2 then F_pad t (c - shape t ! 1) (r - shape t ! 0)
                       else Inl (ValueError ''too many values to unpack'')) ts = Inr (map (\<lambda>t. t) ts)"
    by (rule mapM_err_all_ok) (simp add: sh dim_def F_pad_nothing wf)
  then have mp: "mapM_err (\<lambda>t. if dim t = 2 then F_pad t (c - shape t ! 1) (r - shape t ! 0)
                       else Inl (ValueError ''too many values to unpack'')) ts = Inr ts"
    by simp
  show ?thesis using assms(1) d1 d2 unfolding pad_2d_tensor_def Let_def mr mc mp by simp
qed

lemma F_pad_rank4:
  "shape t = [k, b, s, c] \<Longrightarrow> s \<le> S \<Longrightarrow> c \<le> C \<Longrightarrow>
   F_pad t (C - c) (S - s) =
     Inr \<lparr>shape = [k, b, S, C],
          elems = concat (map (pad_matrix s c (C - c) (S - s))
                            (rows_of (k * b) (s * c) (elems t)))\<rparr>"
  by (simp add: F_pad_def dim_def Let_def)

lemma shape_rank4:
  assumes "length (shape t) = 4"
  shows "shape t = [shape t ! 0, shape t ! 1, shape t ! 2, shape t ! 3]"
proof -
  from assms obtain a b c d where "shape t = [a, b, c, d]"
    by (cases "shape t"; cases "tl (shape t)"; cases "tl (tl (shape t))";
        cases "tl (tl (tl (shape t)))") auto
  then show ?thesis by simp
qed

text \<open>
  Claim C7. On an empty batch the padding engine raises the ValueError
  \<open>Batch cannot be empty\<close>, whatever its configuration; nothing is returned.
\<close>

theorem C7_empty_batch_rejected:
  "DataCollatorWithPadding_call cfg [] = Inl (ValueError ''Batch cannot be empty'')"
  by (simp add: DataCollatorWithPadding_call_def)

text \<open>
  Claim C4. The claim asks for a padded tensor from list-valued features and a vector from
  scalar features. Line 42 calls \<open>squeeze(0)\<close> on every value before the dispatch, so
  a batch of lists and a batch of numbers both raise AttributeError; the branches written
  for them (lines 54-63) are never reached.
\<close>

theorem C4_lists_and_numbers_raise:
  "DataCollatorWithPadding_call None [[(''x'', FList [1, 2 :: real])], [(''x'', FList [3])]]
     = Inl (AttributeError ''squeeze'') \<and>
   DataCollatorWithPadding_call None [[(''y'', FNumber (1 :: real))], [(''y'', FNumber 2)]]
     = Inl (AttributeError ''squeeze'')"
  by (simp add: DataCollatorWithPadding_call_def collate_key_def collect_key_data_def
        squeeze_item_def)

text \<open>
  Claim C5, as amended. Under token-level mode, for every non-empty batch whose \<open>labels\<close>
  values are rank-4 tensors of shape \<open>[k, batch_sub, seq_len, num_classes]\<close> with one
  leading dimension \<open>k\<close> other than 1, the padding engine pads the sequence-length axis and
  the class-count axis of each example to the batch-wide maxima with zeros and then
  concatenates (does not stack) along axis 1, the batch axis: the result has shape
  \<open>[k, sum of the batch_sub, max seq_len, max num_classes]\<close>.
\<close>

theorem C5_token_labels_concatenated:
  fixes ts :: "('a::zero) tensor list"
    and k :: nat
  defines "S \<equiv> max_of (map (\<lambda>t. shape t ! 2) ts)"
  defines "C \<equiv> max_of (map (\<lambda>t. shape t ! 3) ts)"
  defines "padded \<equiv> map (\<lambda>t.
      \<lparr>shape = [k, shape t ! 1, S, C],
       elems = concat (map (pad_matrix (shape t ! 2) (shape t ! 3) (C - shape t ! 3) (S - shape t ! 2))
                         (rows_of (k * shape t ! 1) (shape t ! 2 * shape t ! 3) (elems t)))\<rparr>) ts"
  defines "result \<equiv>
      \<lparr>shape = [k, sum_list (map (\<lambda>t. shape t ! 1) ts), S, C],
       elems = concat (map (\<lambda>j. concat (map (\<lambda>u.
                   take (prod_list (tl (shape u))) (drop (j * prod_list (tl (shape u))) (elems u)))
                 padded)) [0..<k])\<rparr>"
  assumes vals: "map (\<lambda>item. map_of item ''labels'') batch = map (\<lambda>t. Some (FTensor t)) ts"
    and ne: "batch \<noteq> []"
    and mode: "span_mode cfg = ''token_level''"
    and rank4: "list_all (\<lambda>t. length (shape t) = 4 \<and> shape t ! 0 = k) ts"
    and lead: "k \<noteq> 1"
  shows "collate_key (Some cfg) batch ''labels'' = cat_dim1 padded \<and>
         cat_dim1 padded = Inr result \<and>
         (\<forall>out. DataCollatorWithPadding_call (Some cfg) batch = Inr out \<longrightarrow>
            map_of out ''labels'' = Some result)"
proof -
  have lb: "length ts = length batch" using arg_cong[OF vals, of length] by simp
  then have tne: "ts \<noteq> []" using ne by auto
  then obtain t0 rest where ts: "ts = t0 # rest" by (cases ts) auto
  have l4: "\<And>t. t \<in> set ts \<Longrightarrow> length (shape t) = 4"
    and k0: "\<And>t. t \<in> set ts \<Longrightarrow> shape t ! 0 = k"
    using rank4 by (auto simp: list_all_iff)
  have sh: "\<And>t. t \<in> set ts \<Longrightarrow> shape t = [k, shape t ! 1, shape t ! 2, shape t ! 3]"
    using shape_rank4[OF l4] k0 by metis
  have sq: "map squeeze0 ts = ts"
  proof (rule map_idI)
    fix t assume t: "t \<in> set ts"
    have "shape t \<noteq> []" using l4[OF t] by auto
    moreover have "hd (shape t) \<noteq> 1" using sh[OF t] lead by (metis list.sel(1))
    ultimately show "squeeze0 t = t" by (rule squeeze0_id)
  qed
  have d4: "\<And>t. t \<in> set ts \<Longrightarrow> dim t = 4" using l4 by (simp add: dim_def)
  have pk: "pad_key_data (Some cfg) ''labels'' ts = pad_token_labels ts"
    using d4[of t0] mode by (simp add: pad_key_data_def ts)
  have n3: "\<not> list_ex (\<lambda>t. dim t < 3) ts" using d4 by (auto simp: list_ex_iff)
  have n4: "\<not> list_ex (\<lambda>t. dim t < 4) ts" using d4 by (auto simp: list_ex_iff)
  have pads: "mapM_err (\<lambda>t. F_pad t (C - shape t ! 3) (S - shape t ! 2)) ts = Inr padded"
    unfolding padded_def
  proof (rule mapM_err_all_ok)
    fix t assume t: "t \<in> set ts"
    have "shape t ! 2 \<le> S" unfolding S_def by (rule max_of_ge) (use t in simp)
    moreover have "shape t ! 3 \<le> C" unfolding C_def by (rule max_of_ge) (use t in simp)
    ultimately show "F_pad t (C - shape t ! 3) (S - shape t ! 2) =
      Inr \<lparr>shape = [k, shape t ! 1, S, C],
       elems = concat (map (pad_matrix (shape t ! 2) (shape t ! 3) (C - shape t ! 3) (S - shape t ! 2))
                         (rows_of (k * shape t ! 1) (shape t ! 2 * shape t ! 3) (elems t)))\<rparr>"
      by (rule F_pad_rank4[OF sh[OF t]])
  qed
  have ptl: "pad_token_labels ts = cat_dim1 padded"
    using tne n3 n4 pads by (simp add: pad_token_labels_def Let_def S_def C_def)
  have res1: "collate_key (Some cfg) batch ''labels'' = cat_dim1 padded"
    using collate_key_tensors[OF vals, of "Some cfg"] sq pk ptl by simp
  have psh: "\<And>u. u \<in> set padded \<Longrightarrow> \<exists>b. shape u = [k, b, S, C]"
    unfolding padded_def by auto
  obtain p0 prest where pp: "padded = p0 # prest"
    using tne unfolding padded_def by (cases ts) auto
  obtain b0 where p0: "shape p0 = [k, b0, S, C]" using psh[of p0] pp by auto
  have all: "list_all (\<lambda>u. dim u = dim p0 \<and> shape u ! 0 = shape p0 ! 0 \<and>
                            drop 2 (shape u) = drop 2 (shape p0)) prest"
    unfolding list_all_iff
  proof
    fix u assume "u \<in> set prest"
    then obtain b where "shape u = [k, b, S, C]" using psh[of u] pp by auto
    then show "dim u = dim p0 \<and> shape u ! 0 = shape p0 ! 0 \<and>
               drop 2 (shape u) = drop 2 (shape p0)"
      using p0 by (simp add: dim_def)
  qed
  have sums: "sum_list (map (\<lambda>u. shape u ! 1) padded) = sum_list (map (\<lambda>t. shape t ! 1) ts)"
    unfolding padded_def by (simp add: comp_def)
  have "cat_dim1 (p0 # prest) =
        Inr \<lparr>shape = shape p0 ! 0 # sum_list (map (\<lambda>u. shape u ! 1) (p0 # prest))
                              # drop 2 (shape p0),
             elems = concat (map (\<lambda>j. concat (map (\<lambda>u.
                                 take (prod_list (tl (shape u)))
                                   (drop (j * prod_list (tl (shape u))) (elems u))) (p0 # prest)))
                               [0..<shape p0 ! 0])\<rparr>"
    using all p0 unfolding cat_dim1_def by (simp add: dim_def)
  then have res2: "cat_dim1 padded = Inr result"
    unfolding pp[symmetric] sums result_def using p0 by simp
  have link: "\<forall>out. DataCollatorWithPadding_call (Some cfg) batch = Inr out \<longrightarrow>
            map_of out ''labels'' = Some result"
    using call_lookup[OF _ vals ne] res1 res2 by auto
  from res1 res2 link show ?thesis by blast
qed

theorem C5_token_labels_concatenated_witness:
  "collate_key (Some \<lparr>span_mode = ''token_level''\<rparr>)
     [[(''labels'', FTensor \<lparr>shape = [2, 1, 2, 1], elems = [1, 0, 3, 4 :: int]\<rparr>)],
      [(''labels'', FTensor \<lparr>shape = [2, 2, 1, 2], elems = [5, 6, 7, 8, 9, 10, 11, 12]\<rparr>)]]
     ''labels'' =
   Inr \<lparr>shape = [2, 3, 2, 2],
        elems = [1, 0, 0, 0, 5, 6, 0, 0, 7, 8, 0, 0, 3, 0, 4, 0, 9, 10, 0, 0, 11, 12, 0, 0]\<rparr>"
proof -
  let ?a = "\<lparr>shape = [2, 1, 2, 1], elems = [1, 0, 3, 4 :: int]\<rparr>"
  let ?b = "\<lparr>shape = [2, 2, 1, 2], elems = [5, 6, 7, 8, 9, 10, 11, 12 :: int]\<rparr>"
  let ?batch = "[[(''labels'', FTensor ?a)], [(''labels'', FTensor ?b)]]"
  let ?cfg = "\<lparr>span_mode = ''token_level''\<rparr>"
  have vals: "map (\<lambda>item. map_of item ''labels'') ?batch = map (\<lambda>t. Some (FTensor t)) [?a, ?b]"
    by simp
  have ne: "?batch \<noteq> []" by simp
  have mode: "span_mode ?cfg = ''token_level''" by simp
  have rank4: "list_all (\<lambda>t. length (shape t) = 4 \<and> shape t ! 0 = 2) [?a, ?b]" by simp
  have lead: "(2::nat) \<noteq> 1" by simp
  note t = C5_token_labels_concatenated[OF vals ne mode rank4 lead]
  have S: "max_of (map (\<lambda>t. shape t ! 2) [?a, ?b]) = 2" by (simp add: max_of_def)
  have C: "max_of (map (\<lambda>t. shape t ! 3) [?a, ?b]) = 2" by (simp add: max_of_def)
  have u2: "[0..<2] = [0, Suc 0]" by (simp add: upt_rec)
  have u4: "[0..<4] = [0, 1, 2, 3]" by (simp add: upt_rec)
  have r2: "replicate 2 (0::int) = [0, 0]" by (simp add: numeral_2_eq_2)
  have pa: "concat (map (pad_matrix 2 (Suc 0) (Suc 0) 0) (rows_of 2 2 [1, 0, 3, 4 :: int])) =
            [1, 0, 0, 0, 3, 0, 4, 0]"
    by (simp add: pad_matrix_def rows_of_def u2)
  have pb: "concat (map (pad_matrix (Suc 0) 2 0 (Suc 0)) (rows_of 4 2 [5, 6, 7, 8, 9, 10, 11, 12 :: int])) =
            [5, 6, 0, 0, 7, 8, 0, 0, 9, 10, 0, 0, 11, 12, 0, 0]"
    by (simp add: pad_matrix_def rows_of_def u4 r2)
  note e = trans[OF t[THEN conjunct1] t[THEN conjunct2, THEN conjunct1]]
  show ?thesis
    unfolding e S C by (simp add: pa pb u2)
qed

text \<open>
  Claim C5 as first stated fails on the shape it names: with the leading dimension 1,
  line 42 removes that dimension, and \<open>pad_token_labels\<close> reads \<open>shape[3]\<close> of a tensor
  of rank 3, which raises IndexError.
\<close>

theorem C5_leading_one_counterexample:
  "DataCollatorWithPadding_call (Some \<lparr>span_mode = ''token_level''\<rparr>)
     [[(''labels'', FTensor \<lparr>shape = [1, 1, 2, 1], elems = [1, 0 :: real]\<rparr>)],
      [(''labels'', FTensor \<lparr>shape = [1, 1, 1, 2], elems = [0, 1]\<rparr>)]] = Inl IndexError"
  by (simp add: DataCollatorWithPadding_call_def collate_key_def collect_key_data_def
        squeeze_item_def squeeze0_def pad_key_data_def dim_def pad_token_labels_def)

text \<open>
  Claim C8, as amended. For every non-empty batch whose values for a key are rank-1
  tensors none of which has length 1, the padding engine's tensor for that key has one row
  per example, every row has the batch-wide maximum length, and each row is the original
  row followed by zeros only. (A rank-1 tensor of length 1 loses its only dimension at
  line 42 and is not padded as a row.)
\<close>

theorem C8_rank1_rows_padded:
  fixes rows :: "('a::zero) list list"
  defines "m \<equiv> max_of (map length rows)"
  defines "padded \<equiv> \<lparr>shape = [length rows, m],
                       elems = concat (map (\<lambda>r. r @ replicate (m - length r) 0) rows)\<rparr>"
  assumes vals: "map (\<lambda>item. map_of item key) batch =
                 map (\<lambda>r. Some (FTensor \<lparr>shape = [length r], elems = r\<rparr>)) rows"
    and ne: "batch \<noteq> []"
    and len1: "list_all (\<lambda>r. length r \<noteq> 1) rows"
  shows "collate_key cfg batch key = Inr padded \<and>
         length rows = length batch \<and>
         rows_of (length batch) m (elems padded) = map (\<lambda>r. r @ replicate (m - length r) 0) rows \<and>
         list_all (\<lambda>r. length (r @ replicate (m - length r) (0::'a)) = m) rows \<and>
         (\<forall>out. DataCollatorWithPadding_call cfg batch = Inr out \<longrightarrow> map_of out key = Some padded)"
proof -
  have lb: "length rows = length batch"
    using arg_cong[OF vals, of length] by simp
  then have rne: "rows \<noteq> []" using ne by auto
  have vals': "map (\<lambda>item. map_of item key) batch =
     map (\<lambda>t. Some (FTensor t)) (map (\<lambda>r. \<lparr>shape = [length r], elems = r\<rparr>) rows)"
    using vals by (simp add: comp_def)
  have sq: "map squeeze0 (map (\<lambda>r. \<lparr>shape = [length r], elems = r\<rparr>) rows) =
            map (\<lambda>r. \<lparr>shape = [length r], elems = r\<rparr>) rows"
    using len1 by (simp add: list_all_iff squeeze0_rank1)
  have res: "collate_key cfg batch key = Inr padded"
    unfolding collate_key_tensors[OF vals'] sq padded_def m_def
    by (rule pad_key_data_rank1[OF rne])
  have lens: "\<And>r. r \<in> set rows \<Longrightarrow> length (r @ replicate (m - length r) (0::'a)) = m"
  proof -
    fix r :: "'a list" assume "r \<in> set rows"
    then have "length r \<le> m" unfolding m_def by (intro max_of_ge) simp
    then show "length (r @ replicate (m - length r) (0::'a)) = m" by simp
  qed
  have rws: "rows_of (length batch) m (elems padded) =
             map (\<lambda>r. r @ replicate (m - length r) 0) rows"
  proof -
    have "rows_of (length (map (\<lambda>r. r @ replicate (m - length r) (0::'a)) rows)) m
            (concat (map (\<lambda>r. r @ replicate (m - length r) 0) rows)) =
          map (\<lambda>r. r @ replicate (m - length r) 0) rows"
      by (rule rows_of_concat) (use lens in auto)
    then show ?thesis by (simp add: padded_def lb)
  qed
  have all: "list_all (\<lambda>r. length (r @ replicate (m - length r) (0::'a)) = m) rows"
    unfolding list_all_iff using lens by blast
  have link: "\<forall>out. DataCollatorWithPadding_call cfg batch = Inr out \<longrightarrow>
                map_of out key = Some padded"
    using call_lookup[OF _ vals' ne res] by blast
  from res lb rws all link show ?thesis by blast
qed

theorem C8_rank1_rows_padded_witness:
  "collate_key None
     [[(''input_ids'', FTensor \<lparr>shape = [3], elems = [1, 2, 3 :: int]\<rparr>)],
      [(''input_ids'', FTensor \<lparr>shape = [2], elems = [1, 2]\<rparr>)]] ''input_ids'' =
     Inr \<lparr>shape = [2, 3], elems = [1, 2, 3, 1, 2, 0]\<rparr> \<and>
   rows_of 2 3 [1, 2, 3, 1, 2, 0 :: int] = [[1, 2, 3], [1, 2, 0]]"
proof -
  let ?batch = "[[(''input_ids'', FTensor \<lparr>shape = [3], elems = [1, 2, 3 :: int]\<rparr>)],
      [(''input_ids'', FTensor \<lparr>shape = [2], elems = [1, 2]\<rparr>)]]"
  let ?rows = "[[1, 2, 3], [1, 2 :: int]]"
  have vals: "map (\<lambda>item. map_of item ''input_ids'') ?batch =
                 map (\<lambda>r. Some (FTensor \<lparr>shape = [length r], elems = r\<rparr>)) ?rows"
    by simp
  have ne: "?batch \<noteq> []" by simp
  have len1: "list_all (\<lambda>r. length r \<noteq> 1) ?rows" by simp
  have m: "max_of (map length ?rows) = 3" by (simp add: max_of_def)
  from C8_rank1_rows_padded[OF vals ne len1, of None]
  show ?thesis unfolding m by (simp add: numeral_2_eq_2)
qed

text \<open>
  Claim C8 as first stated fails on a rank-1 tensor of length 1: the batch is rejected
  with a TypeError.
\<close>

theorem C8_length_one_row_counterexample:
  "DataCollatorWithPadding_call None
     [[(''input_ids'', FTensor \<lparr>shape = [1], elems = [7 :: int]\<rparr>)]] =
   Inl (TypeError ''Unsuported amount of dimension for key'')"
  by (simp add: DataCollatorWithPadding_call_def collate_key_def collect_key_data_def
        squeeze_item_def squeeze0_def pad_key_data_def dim_def)

text \<open>
  Claim C9, as amended. For every non-empty batch in which all examples' tensors for a key
  share one shape of rank 1 or 2 whose leading dimension is not 1, the padding engine's
  tensor for that key is the input tensors stacked along a new leading batch axis, no
  element changed.
\<close>

theorem C9_uniform_batch_stacked:
  fixes ts :: "('a::zero) tensor list"
  assumes vals: "map (\<lambda>item. map_of item key) batch = map (\<lambda>t. Some (FTensor t)) ts"
    and ne: "batch \<noteq> []"
    and same: "list_all (\<lambda>t. shape t = sh) ts"
    and wf: "list_all wf_tensor ts"
    and rank: "length sh = 1 \<or> length sh = 2"
    and lead: "hd sh \<noteq> 1"
  shows "collate_key cfg batch key = stack ts \<and>
         stack ts = Inr \<lparr>shape = length batch # sh, elems = concat (map elems ts)\<rparr> \<and>
         (\<forall>out. DataCollatorWithPadding_call cfg batch = Inr out \<longrightarrow>
            map_of out key = Some \<lparr>shape = length batch # sh, elems = concat (map elems ts)\<rparr>)"
proof -
  have lb: "length ts = length batch" using arg_cong[OF vals, of length] by simp
  then have tne: "ts \<noteq> []" using ne by auto
  then obtain t0 rest where ts: "ts = t0 # rest" by (cases ts) auto
  have sh: "\<And>t. t \<in> set ts \<Longrightarrow> shape t = sh" using same by (simp add: list_all_iff)
  from rank have shne: "sh \<noteq> []" by auto
  have sq: "map squeeze0 ts = ts"
  proof (rule map_idI)
    fix t assume "t \<in> set ts"
    then have "shape t = sh" by (rule sh)
    then show "squeeze0 t = t" using shne lead by (intro squeeze0_id) simp_all
  qed
  have st: "stack ts = Inr \<lparr>shape = length batch # sh, elems = concat (map elems ts)\<rparr>"
    using stack_uniform[OF tne same] lb by simp
  have d0: "dim t0 = length sh" using sh[of t0] ts by (simp add: dim_def)
  have pk: "pad_key_data cfg key ts = stack ts"
  proof (cases "length sh = 1")
    case True
    then obtain n where n: "sh = [n]" by (cases sh) auto
    have "pad_key_data cfg key ts = pad_sequence ts"
      using d0 True by (simp add: pad_key_data_def ts)
    also have "\<dots> = Inr \<lparr>shape = [length ts, n], elems = concat (map elems ts)\<rparr>"
      by (rule pad_sequence_uniform[OF tne _ wf]) (use same n in simp)
    finally show ?thesis using st n lb by simp
  next
    case False
    with rank have two: "length sh = 2" by simp
    then obtain r c where rc: "sh = [r, c]"
      by (cases sh; cases "tl sh") auto
    have "pad_key_data cfg key ts = pad_2d_tensor ts"
      using d0 two by (simp add: pad_key_data_def ts)
    also have "\<dots> = stack ts"
      by (rule pad_2d_tensor_uniform[OF tne _ wf]) (use same rc in simp)
    finally show ?thesis .
  qed
  have res: "collate_key cfg batch key = stack ts"
    using collate_key_tensors[OF vals, of cfg] sq pk by simp
  have link: "\<forall>out. DataCollatorWithPadding_call cfg batch = Inr out \<longrightarrow>
            map_of out key = Some \<lparr>shape = length batch # sh, elems = concat (map elems ts)\<rparr>"
    using call_lookup[OF _ vals ne] res st by auto
  from res st link show ?thesis by blast
qed

theorem C9_uniform_batch_stacked_witness:
  "collate_key None
     [[(''span_idx'', FTensor \<lparr>shape = [2, 2], elems = [0, 0, 0, 1 :: int]\<rparr>)],
      [(''span_idx'', FTensor \<lparr>shape = [2, 2], elems = [1, 1, 1, 2]\<rparr>)]] ''span_idx'' =
   Inr \<lparr>shape = [2, 2, 2], elems = [0, 0, 0, 1, 1, 1, 1, 2]\<rparr>"
proof -
  let ?batch = "[[(''span_idx'', FTensor \<lparr>shape = [2, 2], elems = [0, 0, 0, 1 :: int]\<rparr>)],
      [(''span_idx'', FTensor \<lparr>shape = [2, 2], elems = [1, 1, 1, 2]\<rparr>)]]"
  let ?ts = "[\<lparr>shape = [2, 2], elems = [0, 0, 0, 1 :: int]\<rparr>,
              \<lparr>shape = [2, 2], elems = [1, 1, 1, 2]\<rparr>]"
  have vals: "map (\<lambda>item. map_of item ''span_idx'') ?batch = map (\<lambda>t. Some (FTensor t)) ?ts"
    by simp
  have ne: "?batch \<noteq> []" by simp
  have same: "list_all (\<lambda>t. shape t = [2, 2]) ?ts" by simp
  have wf: "list_all wf_tensor ?ts" by (simp add: wf_tensor_def)
  have rank: "length [2::nat, 2] = 1 \<or> length [2::nat, 2] = 2" by simp
  have lead: "hd [2::nat, 2] \<noteq> 1" by simp
  from C9_uniform_batch_stacked[OF vals ne same wf rank lead, of None]
  show ?thesis by (simp add: numeral_2_eq_2)
qed

text \<open>
  Claim C9 as first stated fails on two kinds of uniform batch: tensors of shape
  \<open>[1, 2]\<close> give a tensor of shape \<open>[2, 2]\<close> where stacking gives \<open>[2, 1, 2]\<close>, and
  tensors of shape \<open>[2, 1, 1]\<close> are rejected with a TypeError.
\<close>

theorem C9_uniform_batch_counterexample:
  "collate_key None
     [[(''ids'', FTensor \<lparr>shape = [1, 2], elems = [5, 6 :: int]\<rparr>)],
      [(''ids'', FTensor \<lparr>shape = [1, 2], elems = [7, 8]\<rparr>)]] ''ids'' =
     Inr \<lparr>shape = [2, 2], elems = [5, 6, 7, 8]\<rparr> \<and>
   stack [\<lparr>shape = [1, 2], elems = [5, 6 :: int]\<rparr>, \<lparr>shape = [1, 2], elems = [7, 8]\<rparr>] =
     Inr \<lparr>shape = [2, 1, 2], elems = [5, 6, 7, 8]\<rparr> \<and>
   collate_key None
     [[(''ids'', FTensor \<lparr>shape = [2, 1, 1], elems = [5, 6 :: int]\<rparr>)],
      [(''ids'', FTensor \<lparr>shape = [2, 1, 1], elems = [7, 8]\<rparr>)]] ''ids'' =
     Inl (TypeError ''Unsuported amount of dimension for key'')"
  by (simp add: collate_key_def collect_key_data_def squeeze_item_def squeeze0_def
        pad_key_data_def dim_def pad_sequence_def max_of_def stack_def)

text \<open>
  Claim C10, as amended. Before any type or rank dispatch, the padding engine applies
  \<open>squeeze(0)\<close> to every per-example value: a tensor whose leading dimension has size 1
  loses that dimension first, and the rank used for dispatch is the rank after this
  squeeze, not the rank of the value as stored. So every batch of tensors of shape
  \<open>[1, n]\<close> takes the rank-1 path: it is padded by \<open>pad_sequence\<close> as the rows of length
  \<open>n\<close> and stacked. When no \<open>n\<close> is 1, this is exactly the result for the batch of the
  same rows stored with shape \<open>[n]\<close>.
\<close>

theorem C10_squeezed_before_dispatch:
  fixes rows :: "('a::zero) list list"
  assumes valsA: "map (\<lambda>item. map_of item key) batchA =
                  map (\<lambda>r. Some (FTensor \<lparr>shape = [1, length r], elems = r\<rparr>)) rows"
    and valsB: "map (\<lambda>item. map_of item key) batchB =
                  map (\<lambda>r. Some (FTensor \<lparr>shape = [length r], elems = r\<rparr>)) rows"
    and ne: "rows \<noteq> []"
  shows "collate_key cfg batchA key =
           pad_key_data cfg key
             (map squeeze0 (map (\<lambda>r. \<lparr>shape = [1, length r], elems = r\<rparr>) rows)) \<and>
         collate_key cfg batchA key =
           pad_sequence (map (\<lambda>r. \<lparr>shape = [length r], elems = r\<rparr>) rows) \<and>
         collate_key cfg batchA key =
           Inr \<lparr>shape = [length rows, max_of (map length rows)],
                elems = concat (map (\<lambda>r. r @ replicate (max_of (map length rows) - length r) 0)
                                  rows)\<rparr> \<and>
         (list_all (\<lambda>r. length r \<noteq> 1) rows \<longrightarrow>
            collate_key cfg batchA key = collate_key cfg batchB key)"
proof -
  let ?flat = "map (\<lambda>r. \<lparr>shape = [length r], elems = r\<rparr>) rows"
  let ?lead = "map (\<lambda>r. \<lparr>shape = [1, length r], elems = r\<rparr>) rows"
  have vA: "map (\<lambda>item. map_of item key) batchA = map (\<lambda>t. Some (FTensor t)) ?lead"
    using valsA by (simp add: comp_def)
  have vB: "map (\<lambda>item. map_of item key) batchB = map (\<lambda>t. Some (FTensor t)) ?flat"
    using valsB by (simp add: comp_def)
  have sqA: "map squeeze0 ?lead = ?flat"
    by (simp add: squeeze0_def)
  have A0: "collate_key cfg batchA key = pad_key_data cfg key (map squeeze0 ?lead)"
    by (rule collate_key_tensors[OF vA])
  have A: "collate_key cfg batchA key = pad_key_data cfg key ?flat"
    unfolding A0 sqA ..
  note r = pad_key_data_rank1[OF ne, of cfg key]
  note p = pad_sequence_rows[OF ne]
  have A1: "collate_key cfg batchA key = pad_sequence ?flat"
    unfolding A r p ..
  have A2: "collate_key cfg batchA key =
           Inr \<lparr>shape = [length rows, max_of (map length rows)],
                elems = concat (map (\<lambda>r. r @ replicate (max_of (map length rows) - length r) 0)
                                  rows)\<rparr>"
    unfolding A r ..
  have AB: "list_all (\<lambda>r. length r \<noteq> 1) rows \<longrightarrow>
            collate_key cfg batchA key = collate_key cfg batchB key"
  proof
    assume len1: "list_all (\<lambda>r. length r \<noteq> 1) rows"
    have sqB: "map squeeze0 ?flat = ?flat"
      using len1 by (simp add: list_all_iff squeeze0_rank1)
    have "collate_key cfg batchB key = pad_key_data cfg key ?flat"
      unfolding collate_key_tensors[OF vB] sqB ..
    then show "collate_key cfg batchA key = collate_key cfg batchB key"
      using A by simp
  qed
  from A0 A1 A2 AB show ?thesis by blast
qed

theorem C10_squeezed_before_dispatch_witness:
  "collate_key None
     [[(''input_ids'', FTensor \<lparr>shape = [1, 3], elems = [1, 2, 3 :: int]\<rparr>)],
      [(''input_ids'', FTensor \<lparr>shape = [1, 2], elems = [4, 5]\<rparr>)]] ''input_ids'' =
   collate_key None
     [[(''input_ids'', FTensor \<lparr>shape = [3], elems = [1, 2, 3 :: int]\<rparr>)],
      [(''input_ids'', FTensor \<lparr>shape = [2], elems = [4, 5]\<rparr>)]] ''input_ids'' \<and>
   collate_key None
     [[(''input_ids'', FTensor \<lparr>shape = [1, 3], elems = [1, 2, 3 :: int]\<rparr>)],
      [(''input_ids'', FTensor \<lparr>shape = [1, 2], elems = [4, 5]\<rparr>)]] ''input_ids'' =
   Inr \<lparr>shape = [2, 3], elems = [1, 2, 3, 4, 5, 0]\<rparr>"
proof -
  let ?A = "[[(''input_ids'', FTensor \<lparr>shape = [1, 3], elems = [1, 2, 3 :: int]\<rparr>)],
      [(''input_ids'', FTensor \<lparr>shape = [1, 2], elems = [4, 5]\<rparr>)]]"
  let ?B = "[[(''input_ids'', FTensor \<lparr>shape = [3], elems = [1, 2, 3 :: int]\<rparr>)],
      [(''input_ids'', FTensor \<lparr>shape = [2], elems = [4, 5]\<rparr>)]]"
  let ?rows = "[[1, 2, 3], [4, 5 :: int]]"
  have valsA: "map (\<lambda>item. map_of item ''input_ids'') ?A =
                  map (\<lambda>r. Some (FTensor \<lparr>shape = [1, length r], elems = r\<rparr>)) ?rows"
    by simp
  have valsB: "map (\<lambda>item. map_of item ''input_ids'') ?B =
                  map (\<lambda>r. Some (FTensor \<lparr>shape = [length r], elems = r\<rparr>)) ?rows"
    by simp
  have ne: "?rows \<noteq> []" by simp
  have len1: "list_all (\<lambda>r. length r \<noteq> 1) ?rows" by simp
  have m: "max_of (map length ?rows) = 3" by (simp add: max_of_def)
  note t = C10_squeezed_before_dispatch[OF valsA valsB ne, of None]
  have same: "collate_key None ?A ''input_ids'' = collate_key None ?B ''input_ids''"
    using t[THEN conjunct2, THEN conjunct2, THEN conjunct2] len1 by blast
  have val: "collate_key None ?A ''input_ids'' =
             Inr \<lparr>shape = [2, 3], elems = [1, 2, 3, 4, 5, 0]\<rparr>"
    using t[THEN conjunct2, THEN conjunct2, THEN conjunct1] unfolding m
    by (simp add: numeral_2_eq_2)
  from same val show ?thesis by blast
qed

text \<open>
  Claim C10 as first stated fails at \<open>n = 1\<close>: a tensor of shape \<open>[1, 1]\<close> is padded as a
  row of length 1, while the same row stored with shape \<open>[1]\<close> is squeezed to rank 0 and
  rejected.
\<close>

theorem C10_length_one_counterexample:
  "collate_key None [[(''input_ids'', FTensor \<lparr>shape = [1, 1], elems = [5 :: int]\<rparr>)]]
     ''input_ids'' = Inr \<lparr>shape = [1, 1], elems = [5]\<rparr> \<and>
   collate_key None [[(''input_ids'', FTensor \<lparr>shape = [1], elems = [5 :: int]\<rparr>)]]
     ''input_ids'' = Inl (TypeError ''Unsuported amount of dimension for key'')"
  by (simp add: collate_key_def collect_key_data_def squeeze_item_def squeeze0_def
        pad_key_data_def dim_def pad_sequence_def max_of_def)

end
